theory Spec2Isabelle
  imports Complex_Main "HOL-Library.AList"
begin

section \<open>JavaScript values, errors and the base client's accessors\<close>

text \<open>
  The adapter \<^verbatim>\<open>js/hitbtc.js\<close> is one class whose methods read decoded JSON records
  through the accessors of its base class (\<^verbatim>\<open>safeString\<close>, \<^verbatim>\<open>safeFloat\<close>,
  \<^verbatim>\<open>safeValue\<close>) and compute with JavaScript numbers.

  A JavaScript number is modelled by the real it denotes, or by \<open>NaN\<close>; the rounding of
  IEEE doubles and the infinities are outside the model. A variable that holds a number
  or \<^verbatim>\<open>undefined\<close> is a \<open>real option\<close>, \<open>None\<close> being \<^verbatim>\<open>undefined\<close>; a string or
  \<^verbatim>\<open>undefined\<close> is a \<open>string option\<close>.
\<close>

datatype jsnum = Fin real | NaN

text \<open>
  The exceptions of \<^verbatim>\<open>./base/errors\<close> that the adapter raises, each with its message,
  and the engine's own \<^verbatim>\<open>TypeError\<close> for a property read on \<^verbatim>\<open>undefined\<close>.
\<close>

datatype error =
    TypeError
  | ExchangeError string
  | ExchangeNotAvailable string
  | RequestTimeout string
  | AuthenticationError string
  | PermissionDenied string
  | InvalidOrder string
  | BadSymbol string
  | OrderNotFound string
  | InsufficientFunds string

text \<open>
  A string or \<^verbatim>\<open>undefined\<close> used as a string, as a property key or in a
  concatenation: \<^verbatim>\<open>undefined\<close> is read as the string \<^verbatim>\<open>"undefined"\<close> there. Such a
  value is truthy when it is neither \<^verbatim>\<open>undefined\<close> nor the empty string.
\<close>

definition js_string :: "string option \<Rightarrow> string" where
  "js_string k = (case k of None \<Rightarrow> ''undefined'' | Some s \<Rightarrow> s)"

definition truthy :: "string option \<Rightarrow> bool" where
  "truthy x = (case x of None \<Rightarrow> False | Some s \<Rightarrow> s \<noteq> [])"

text \<open>
  Modelled from the spec: the base client's \<^verbatim>\<open>safeString (o, k, default)\<close> is not part of
  \<^verbatim>\<open>hitbtc.js\<close>. On a table of strings it is the lookup of \<open>k\<close> with a default
  (``fixed lookup table \<dots> unknown status passed through unchanged'').
\<close>

definition safeString :: "(string \<rightharpoonup> string) \<Rightarrow> string option \<Rightarrow> string option \<Rightarrow> string option" where
  "safeString obj k dflt = (case obj (js_string k) of Some v \<Rightarrow> Some v | None \<Rightarrow> dflt)"

text \<open>
  Modelled from the spec: the base client's \<^verbatim>\<open>sum (...xs)\<close> is not part of \<^verbatim>\<open>hitbtc.js\<close>.
  It adds those of its arguments that are numbers and is \<^verbatim>\<open>undefined\<close> when none is
  (``recomputed by summing the fills''; an argument that is \<^verbatim>\<open>undefined\<close> or \<open>NaN\<close>
  is left out).
\<close>

fun numbers :: "jsnum option list \<Rightarrow> real list" where
  "numbers [] = []"
| "numbers (Some (Fin x) # xs) = x # numbers xs"
| "numbers (_ # xs) = numbers xs"

definition sum_js :: "jsnum option list \<Rightarrow> real option" where
  "sum_js xs = (let ns = numbers xs in if ns = [] then None else Some (foldl (+) 0 ns))"

text \<open>The product of two values that may be \<^verbatim>\<open>undefined\<close>: \<^verbatim>\<open>undefined * x\<close> is \<open>NaN\<close>.\<close>

definition js_mul :: "real option \<Rightarrow> real option \<Rightarrow> jsnum" where
  "js_mul a b = (case (a, b) of (Some x, Some y) \<Rightarrow> Fin (x * y) | _ \<Rightarrow> NaN)"

section \<open>The data model\<close>

text \<open>
  Modelled from the spec: the accessors \<^verbatim>\<open>safeFloat\<close>, \<^verbatim>\<open>safeString\<close>,
  \<^verbatim>\<open>safeValue\<close> and \<^verbatim>\<open>parse8601\<close> of the base client are not part of \<^verbatim>\<open>hitbtc.js\<close>.
  A raw record of the exchange is represented by what they read from it (``numeric fields
  are parsed from decimal strings; missing optional fields default to unset/undefined
  rather than zero''): a field read with \<^verbatim>\<open>safeFloat\<close> is a \<open>real option\<close>, the finite
  number in the field and \<open>None\<close> when the field is absent or not a number; a field read
  with \<^verbatim>\<open>safeString\<close> is a \<open>string option\<close>; a timestamp field is the milliseconds
  \<^verbatim>\<open>parse8601\<close> reads from it; \<^verbatim>\<open>tradesReport\<close>, read with \<^verbatim>\<open>safeValue\<close>, is the
  list of its fills.

  The unified records carry the fields of the objects the parsers return, but \<^verbatim>\<open>info\<close>
  (the raw record itself), \<^verbatim>\<open>datetime\<close> (\<^verbatim>\<open>iso8601\<close> of the timestamp) and the fields
  that are the constant \<^verbatim>\<open>undefined\<close>. A market has the fields of \<^verbatim>\<open>fetchMarkets\<close> that
  the parsers read.
\<close>

record market =
  m_id :: "string option"
  m_symbol :: string
  m_quote :: "string option"
  m_feeCurrency :: "string option"

record fee =
  fee_cost :: real
  fee_currency :: "string option"

record raw_ticker =
  tk_timestamp :: "int option"
  tk_volume :: "real option"
  tk_volumeQuote :: "real option"
  tk_open :: "real option"
  tk_last :: "real option"
  tk_high :: "real option"
  tk_low :: "real option"
  tk_bid :: "real option"
  tk_ask :: "real option"

record unified_ticker =
  ti_symbol :: "string option"
  ti_timestamp :: "int option"
  ti_high :: "real option"
  ti_low :: "real option"
  ti_bid :: "real option"
  ti_ask :: "real option"
  ti_vwap :: "real option"
  ti_open :: "real option"
  ti_close :: "real option"
  ti_last :: "real option"
  ti_change :: "real option"
  ti_percentage :: "real option"
  ti_average :: "real option"
  ti_baseVolume :: "real option"
  ti_quoteVolume :: "real option"

record raw_trade =
  rt_timestamp :: "int option"
  rt_symbol :: "string option"
  rt_fee :: "real option"
  rt_clientOrderId :: "string option"
  rt_price :: "real option"
  rt_quantity :: "real option"
  rt_side :: "string option"
  rt_id :: "string option"

record unified_trade =
  t_id :: "string option"
  t_order :: "string option"
  t_timestamp :: "int option"
  t_symbol :: "string option"
  t_side :: "string option"
  t_price :: "real option"
  t_amount :: "real option"
  t_cost :: jsnum
  t_fee :: "fee option"

record raw_order =
  ro_createdAt :: "int option"
  ro_updatedAt :: "int option"
  ro_symbol :: "string option"
  ro_quantity :: "real option"
  ro_cumQuantity :: "real option"
  ro_status :: "string option"
  ro_clientOrderId :: "string option"
  ro_price :: "real option"
  ro_type :: "string option"
  ro_side :: "string option"
  ro_tradesReport :: "raw_trade list option"

record unified_order =
  o_id :: "string option"
  o_clientOrderId :: "string option"
  o_timestamp :: "int option"
  o_lastTradeTimestamp :: "int option"
  o_status :: "string option"
  o_symbol :: "string option"
  o_type :: "string option"
  o_side :: "string option"
  o_price :: "real option"
  o_average :: "real option"
  o_amount :: "real option"
  o_cost :: "real option"
  o_filled :: "real option"
  o_remaining :: "real option"
  o_fee :: "fee option"
  o_trades :: "unified_trade list option"

text \<open>
  The adapter instance \<^verbatim>\<open>this\<close>: the market table by exchange id, the order cache by
  client order id, and the credentials.
\<close>

record exchange =
  markets_by_id :: "string \<rightharpoonup> market"
  orders :: "string \<rightharpoonup> unified_order"
  apiKey :: "string option"
  secret :: "string option"

definition exchange_id :: string where
  "exchange_id = ''hitbtc''"

definition version :: string where
  "version = ''2''"

section \<open>The parsers\<close>

subsection \<open>parseOrderStatus\<close>

definition statuses :: "(string \<times> string) list" where
  "statuses =
    [(''new'', ''open''),
     (''suspended'', ''open''),
     (''partiallyFilled'', ''open''),
     (''filled'', ''closed''),
     (''canceled'', ''canceled''),
     (''expired'', ''failed'')]"

definition parseOrderStatus :: "string option \<Rightarrow> string option" where
  "parseOrderStatus status = safeString (map_of statuses) status status"

subsection \<open>parseTicker\<close>

definition parseTicker :: "raw_ticker \<Rightarrow> market option \<Rightarrow> unified_ticker" where
  "parseTicker ticker market =
    (let timestamp = tk_timestamp ticker;
         symbol = (case market of None \<Rightarrow> None | Some m \<Rightarrow> Some (m_symbol m));
         baseVolume = tk_volume ticker;
         quoteVolume = tk_volumeQuote ticker;
         open = tk_open ticker;
         last = tk_last ticker;
         (change, percentage, average) =
           (case (last, open) of
              (Some l, Some opn) \<Rightarrow>
                (Some (l - opn),
                 (if opn > 0 then Some ((l - opn) / opn * 100) else None),
                 map_option (\<lambda>s. s / 2) (sum_js [Some (Fin l), Some (Fin opn)]))
            | _ \<Rightarrow> (None, None, None));
         vwap =
           (case quoteVolume of
              None \<Rightarrow> None
            | Some qv \<Rightarrow>
                (case baseVolume of
                   None \<Rightarrow> None
                 | Some bv \<Rightarrow> if bv > 0 then Some (qv / bv) else None))
     in \<lparr> ti_symbol = symbol,
          ti_timestamp = timestamp,
          ti_high = tk_high ticker,
          ti_low = tk_low ticker,
          ti_bid = tk_bid ticker,
          ti_ask = tk_ask ticker,
          ti_vwap = vwap,
          ti_open = open,
          ti_close = last,
          ti_last = last,
          ti_change = change,
          ti_percentage = percentage,
          ti_average = average,
          ti_baseVolume = baseVolume,
          ti_quoteVolume = quoteVolume \<rparr>)"

subsection \<open>parseTrade\<close>

definition parseTrade :: "exchange \<Rightarrow> raw_trade \<Rightarrow> market option \<Rightarrow> unified_trade" where
  "parseTrade this trade market0 =
    (let timestamp = rt_timestamp trade;
         marketId = rt_symbol trade;
         (market, symbol) =
           (case marketId of
              None \<Rightarrow> (market0, None)
            | Some mid \<Rightarrow>
                (case markets_by_id this mid of
                   Some m \<Rightarrow> (Some m, None)
                 | None \<Rightarrow> (market0, Some mid)));
         symbol =
           (case symbol of
              None \<Rightarrow> (case market of Some m \<Rightarrow> Some (m_symbol m) | None \<Rightarrow> None)
            | Some s \<Rightarrow> Some s);
         feeCost = rt_fee trade;
         fee =
           (case feeCost of
              None \<Rightarrow> None
            | Some c \<Rightarrow>
                Some \<lparr> fee_cost = c,
                       fee_currency = (case market of Some m \<Rightarrow> m_feeCurrency m | None \<Rightarrow> None) \<rparr>);
         orderId = rt_clientOrderId trade;
         price = rt_price trade;
         amount = rt_quantity trade;
         cost = js_mul price amount;
         side = rt_side trade;
         id = rt_id trade
     in \<lparr> t_id = id,
          t_order = orderId,
          t_timestamp = timestamp,
          t_symbol = symbol,
          t_side = side,
          t_price = price,
          t_amount = amount,
          t_cost = cost,
          t_fee = fee \<rparr>)"

text \<open>
  Modelled from the spec: the base client's \<^verbatim>\<open>parseTrades (trades, market)\<close> is not part
  of \<^verbatim>\<open>hitbtc.js\<close>. It parses each embedded fill with \<open>parseTrade\<close> (``an Order
  aggregates zero or more Trades'').
\<close>

definition parseTrades :: "exchange \<Rightarrow> raw_trade list \<Rightarrow> market option \<Rightarrow> unified_trade list" where
  "parseTrades this trades market = map (\<lambda>t. parseTrade this t market) trades"

subsection \<open>parseOrder\<close>

text \<open>
  The loop over the parsed fills, with its two accumulators \<^verbatim>\<open>feeCost\<close> and
  \<^verbatim>\<open>tradesCost\<close>.
\<close>

fun fills_loop :: "unified_trade list \<Rightarrow> real option \<times> real option \<Rightarrow> real option \<times> real option" where
  "fills_loop [] acc = acc"
| "fills_loop (t # ts) (feeCost0, tradesCost0) =
    (let feeCost1 = (case feeCost0 of None \<Rightarrow> Some 0 | Some f \<Rightarrow> Some f);
         tradesCost = sum_js [map_option Fin tradesCost0, Some (t_cost t)];
         tradeFeeCost = map_option fee_cost (t_fee t);
         feeCost =
           (case tradeFeeCost of
              None \<Rightarrow> feeCost1
            | Some c \<Rightarrow> sum_js [map_option Fin feeCost1, Some (Fin c)])
     in fills_loop ts (feeCost, tradesCost))"

text \<open>
  The block of \<open>parseOrder\<close> that is run when the record has a \<^verbatim>\<open>tradesReport\<close>
  (lines 858--889): from the fills, the market, \<^verbatim>\<open>filled\<close>, \<^verbatim>\<open>type\<close> and the price
  so far, it gives the parsed trades, the fee, the average, the cost and the price. The
  read of \<^verbatim>\<open>market['quote']\<close> raises when \<^verbatim>\<open>market\<close> is \<^verbatim>\<open>undefined\<close>.
\<close>

definition parseOrder_fills ::
    "exchange \<Rightarrow> market option \<Rightarrow> raw_trade list \<Rightarrow> real option \<Rightarrow> string option \<Rightarrow> real option
      \<Rightarrow> error + (unified_trade list \<times> fee option \<times> real option \<times> real option \<times> real option)" where
  "parseOrder_fills this market raw_trades filled type price0 =
    (let trades = parseTrades this raw_trades market;
         (feeCost, tradesCost) = fills_loop trades (None, Some 0);
         cost = tradesCost;
         (average, price) =
           (case filled of
              None \<Rightarrow> (None, price0)
            | Some f \<Rightarrow>
                if f > 0 then
                  (let average = map_option (\<lambda>c. c / f) cost
                   in (average,
                       if type = Some ''market'' then
                         (case price0 of None \<Rightarrow> average | Some p \<Rightarrow> Some p)
                       else price0))
                else (None, price0))
     in case feeCost of
          None \<Rightarrow> Inr (trades, None, average, cost, price)
        | Some fc \<Rightarrow>
            (case market of
               None \<Rightarrow> Inl TypeError
             | Some m \<Rightarrow>
                 Inr (trades, Some \<lparr> fee_cost = fc, fee_currency = m_quote m \<rparr>,
                      average, cost, price)))"

definition parseOrder :: "exchange \<Rightarrow> raw_order \<Rightarrow> market option \<Rightarrow> error + unified_order" where
  "parseOrder this order market0 =
    (let created = ro_createdAt order;
         updated = ro_updatedAt order;
         marketId = ro_symbol order;
         (market, symbol0) =
           (case marketId of
              None \<Rightarrow> (market0, None)
            | Some mid \<Rightarrow>
                (case markets_by_id this mid of
                   Some m \<Rightarrow> (Some m, Some (m_symbol m))
                 | None \<Rightarrow> (market0, Some mid)));
         symbol =
           (case symbol0 of
              None \<Rightarrow> (case market of Some m \<Rightarrow> m_id m | None \<Rightarrow> None)
            | Some s \<Rightarrow> Some s);
         amount = ro_quantity order;
         filled = ro_cumQuantity order;
         status = parseOrderStatus (ro_status order);
         id = ro_clientOrderId order;
         clientOrderId = id;
         price0 = ro_price order;
         price1 =
           (case price0 of
              None \<Rightarrow> (case orders this (js_string id) of Some cached \<Rightarrow> o_price cached | None \<Rightarrow> None)
            | Some p \<Rightarrow> Some p);
         (remaining, cost0) =
           (case (amount, filled) of
              (Some a, Some f) \<Rightarrow> (Some (a - f), (case price1 of Some p \<Rightarrow> Some (f * p) | None \<Rightarrow> None))
            | _ \<Rightarrow> (None, None));
         type = ro_type order;
         side = ro_side order
     in case (case ro_tradesReport order of
                None \<Rightarrow> Inr (None, None, None, cost0, price1)
              | Some raw_trades \<Rightarrow>
                  (case parseOrder_fills this market raw_trades filled type price1 of
                     Inl e \<Rightarrow> Inl e
                   | Inr (trades, fee, average, cost, price) \<Rightarrow>
                       Inr (Some trades, fee, average, cost, price))) of
          Inl e \<Rightarrow> Inl e
        | Inr (trades, fee, average, cost, price) \<Rightarrow>
            Inr \<lparr> o_id = id,
                  o_clientOrderId = clientOrderId,
                  o_timestamp = created,
                  o_lastTradeTimestamp = updated,
                  o_status = status,
                  o_symbol = symbol,
                  o_type = type,
                  o_side = side,
                  o_price = price,
                  o_average = average,
                  o_amount = amount,
                  o_cost = cost,
                  o_filled = filled,
                  o_remaining = remaining,
                  o_fee = fee,
                  o_trades = trades \<rparr>)"

subsection \<open>createOrder\<close>

text \<open>
  \<open>createOrder\<close> from the exchange's response on: the response is parsed, a rejected
  order is refused, any other is stored in the cache under its id and returned. The
  updated adapter is returned with the order. \<open>json\<close> is the base client's serialiser
  of the order for the message.
\<close>

definition createOrder :: "(unified_order \<Rightarrow> string) \<Rightarrow> exchange \<Rightarrow> raw_order \<Rightarrow> error + (unified_order \<times> exchange)" where
  "createOrder json this response =
    (case parseOrder this response None of
       Inl e \<Rightarrow> Inl e
     | Inr order \<Rightarrow>
         if o_status order = Some ''rejected'' then
           Inl (InvalidOrder (exchange_id @ '' order was rejected by the exchange '' @ json order))
         else
           (let id = o_id order
            in Inr (order, this\<lparr> orders := (orders this)(js_string id \<mapsto> order) \<rparr>)))"

section \<open>The error classifier\<close>

text \<open>
  The table \<^verbatim>\<open>exceptions\<close> of \<^verbatim>\<open>describe ()\<close>: the exchange's error code, as a string,
  and the exception class raised for it.
\<close>

definition exceptions :: "(string \<times> (string \<Rightarrow> error)) list" where
  "exceptions =
    [(''504'', RequestTimeout),
     (''1002'', AuthenticationError),
     (''1003'', PermissionDenied),
     (''2010'', InvalidOrder),
     (''2001'', BadSymbol),
     (''2011'', InvalidOrder),
     (''2020'', InvalidOrder),
     (''20002'', OrderNotFound),
     (''20001'', InsufficientFunds)]"

text \<open>
  Modelled from the spec: the base client's \<^verbatim>\<open>throwExactlyMatchedException (exact, string,
  message)\<close> is not part of \<^verbatim>\<open>hitbtc.js\<close>. It raises the exception the table has for
  exactly this code, with the message, and returns when the table has none (``exact-match
  lookup against a fixed code table'').
\<close>

definition throwExactlyMatchedException ::
    "(string \<rightharpoonup> (string \<Rightarrow> error)) \<Rightarrow> string option \<Rightarrow> string \<Rightarrow> error + unit" where
  "throwExactlyMatchedException exact string message =
    (case exact (js_string string) of Some exn \<Rightarrow> Inl (exn message) | None \<Rightarrow> Inr ())"

text \<open>
  The decoded response as \<open>handleErrors\<close> reads it: whether it has a member
  \<^verbatim>\<open>error\<close>, and what \<^verbatim>\<open>safeString\<close> reads from that member's \<^verbatim>\<open>code\<close> and
  \<^verbatim>\<open>message\<close>.
\<close>

record error_body =
  eb_code :: "string option"
  eb_message :: "string option"

record response =
  rs_error :: "error_body option"

text \<open>
  \<open>handleErrors\<close> reads the HTTP status \<open>code\<close>, the text \<open>body\<close> and the decoded
  \<open>response\<close> (\<open>None\<close> when it is \<^verbatim>\<open>undefined\<close>) among its arguments. \<open>Inr ()\<close> is a
  return without an exception: the base client's own handling follows.
\<close>

definition handleErrors :: "int \<Rightarrow> string \<Rightarrow> response option \<Rightarrow> error + unit" where
  "handleErrors code body response =
    (case response of
       None \<Rightarrow> Inr ()
     | Some resp \<Rightarrow>
         if code \<ge> 400 then
           (let feedback = exchange_id @ '' '' @ body
            in if code = 503 \<or> code = 504 then Inl (ExchangeNotAvailable feedback)
               else if code = 429 then Inr ()
               else if take 1 body = ''{'' then
                 (case rs_error resp of
                    None \<Rightarrow> Inl (ExchangeError feedback)
                  | Some err \<Rightarrow>
                      (let errorCode = eb_code err
                       in case throwExactlyMatchedException (map_of exceptions) errorCode feedback of
                            Inl e \<Rightarrow> Inl e
                          | Inr _ \<Rightarrow>
                              (let message = eb_message err
                               in if message = Some ''Duplicate clientOrderId''
                                  then Inl (InvalidOrder feedback)
                                  else Inl (ExchangeError feedback))))
               else Inl (ExchangeError feedback))
         else Inr ())"

section \<open>The request signer\<close>

text \<open>
  A request parameter is a string or a number; a parameter object is the list of its
  entries in insertion order. \<^verbatim>\<open>this.json (query)\<close>, the JSON text of an object, is
  represented by the object.
\<close>

datatype jsval = JStr string | JNum jsnum

type_synonym params = "(string \<times> jsval) list"

datatype body = Text string | Json params

record request =
  rq_url :: string
  rq_method :: string
  rq_body :: "body option"
  rq_headers :: "(string \<times> string) list option"

text \<open>
  The two encoders of the base client that render parameter values as text,
  \<^verbatim>\<open>implodeParams\<close> (the path with its placeholders filled in) and \<^verbatim>\<open>urlencode\<close>, are
  not part of \<^verbatim>\<open>hitbtc.js\<close>; they are parameters of the model.
\<close>

record encoders =
  implodeParams :: "string \<Rightarrow> params \<Rightarrow> string"
  urlencode :: "params \<Rightarrow> string"

text \<open>
  Modelled from the spec: the base client's \<^verbatim>\<open>stringToBase64\<close> is not part of
  \<^verbatim>\<open>hitbtc.js\<close>. It is the Base64 encoding of the bytes of the string, three bytes to
  four characters, padded with \<^verbatim>\<open>=\<close> (``HTTP Basic with base64-encoded key:secret'').
\<close>

definition base64_alphabet :: string where
  "base64_alphabet = ''ABCDEFGHIJKLMNOPQRSTUVWXYZabcdefghijklmnopqrstuvwxyz0123456789+/''"

definition base64_char :: "nat \<Rightarrow> char" where
  "base64_char n = base64_alphabet ! (n mod 64)"

fun base64_bytes :: "nat list \<Rightarrow> string" where
  "base64_bytes (a # b # c # rest) =
     [base64_char (a div 4),
      base64_char ((a mod 4) * 16 + b div 16),
      base64_char ((b mod 16) * 4 + c div 64),
      base64_char (c mod 64)] @ base64_bytes rest"
| "base64_bytes [a, b] =
     [base64_char (a div 4),
      base64_char ((a mod 4) * 16 + b div 16),
      base64_char ((b mod 16) * 4),
      CHR ''='']"
| "base64_bytes [a] =
     [base64_char (a div 4), base64_char ((a mod 4) * 16), CHR ''='', CHR ''='']"
| "base64_bytes [] = []"

definition stringToBase64 :: "string \<Rightarrow> string" where
  "stringToBase64 s = base64_bytes (map of_char s)"

text \<open>
  Modelled from the spec: the base client's \<^verbatim>\<open>extractParams\<close>, \<^verbatim>\<open>omit\<close> and
  \<^verbatim>\<open>extend\<close> are not part of \<^verbatim>\<open>hitbtc.js\<close>. \<open>extractParams\<close> lists the names in
  braces of a path template, \<open>omit\<close> drops the entries with these names (``path
  parameters are substituted into the URL template; remaining parameters become a query
  string for GET or a JSON body otherwise''), and \<open>extend\<close> is the object with the
  entries of both, the second's winning.
\<close>

definition is_word_char :: "char \<Rightarrow> bool" where
  "is_word_char c =
    (let n = (of_char c :: nat)
     in (48 \<le> n \<and> n \<le> 57) \<or> (65 \<le> n \<and> n \<le> 90) \<or> (97 \<le> n \<and> n \<le> 122)
        \<or> c = CHR ''_'' \<or> c = CHR ''-'')"

function extractParams :: "string \<Rightarrow> string list" where
  "extractParams [] = []"
| "extractParams (c # cs) =
    (if c = CHR ''{'' then
       (let name = takeWhile is_word_char cs
        in case dropWhile is_word_char cs of
             d # rest \<Rightarrow>
               if name \<noteq> [] \<and> d = CHR ''}'' then name # extractParams rest
               else extractParams cs
           | [] \<Rightarrow> extractParams cs)
     else extractParams cs)"
  by pat_completeness auto
termination
proof (relation "measure length")
  fix c :: char and cs name d rest
  assume "dropWhile is_word_char cs = d # rest"
  then have "length (d # rest) \<le> length cs"
    by (metis length_dropWhile_le)
  then show "(rest, c # cs) \<in> measure length" by simp
qed auto

definition omit :: "params \<Rightarrow> string list \<Rightarrow> params" where
  "omit params keys = filter (\<lambda>(k, v). k \<notin> set keys) params"

definition extend :: "params \<Rightarrow> params \<Rightarrow> params" where
  "extend a b = fold (\<lambda>(k, v). AList.update k v) b a"

text \<open>
  Modelled from the spec: the base client's \<^verbatim>\<open>checkRequiredCredentials ()\<close> is not part
  of \<^verbatim>\<open>hitbtc.js\<close>. It raises an authentication error when the API key or the secret is
  missing (``fails with an authentication error if credentials are absent'').
\<close>

definition checkRequiredCredentials :: "exchange \<Rightarrow> error + unit" where
  "checkRequiredCredentials this =
    (if \<not> truthy (apiKey this) then
       Inl (AuthenticationError (exchange_id @ '' requires apiKey credential''))
     else if \<not> truthy (secret this) then
       Inl (AuthenticationError (exchange_id @ '' requires secret credential''))
     else Inr ())"

definition urls_api :: "(string \<times> string) list" where
  "urls_api =
    [(''public'', ''https://api.hitbtc.com''),
     (''private'', ''https://api.hitbtc.com'')]"

definition sign ::
    "encoders \<Rightarrow> exchange \<Rightarrow> string \<Rightarrow> string \<Rightarrow> string \<Rightarrow> params
      \<Rightarrow> (string \<times> string) list option \<Rightarrow> body option \<Rightarrow> error + request" where
  "sign enc this path api method params headers body =
    (let url0 = ''/api/'' @ version @ ''/'';
         query = omit params (extractParams path)
     in if api = ''public'' then
          (let url1 = url0 @ api @ ''/'' @ implodeParams enc path params;
               url2 = (if query \<noteq> [] then url1 @ ''?'' @ urlencode enc query else url1)
           in Inr \<lparr> rq_url = js_string (map_of urls_api api) @ url2, rq_method = method,
                    rq_body = body, rq_headers = headers \<rparr>)
        else
          (case checkRequiredCredentials this of
             Inl e \<Rightarrow> Inl e
           | Inr _ \<Rightarrow>
               (let url1 = url0 @ implodeParams enc path params;
                    (url2, body1) =
                      (if method = ''GET'' then
                         (if query \<noteq> [] then url1 @ ''?'' @ urlencode enc query else url1, body)
                       else if query \<noteq> [] then (url1, Some (Json query))
                       else (url1, body));
                    payload = js_string (apiKey this) @ '':'' @ js_string (secret this);
                    auth = stringToBase64 payload;
                    headers1 =
                      [(''Authorization'', ''Basic '' @ auth),
                       (''Content-Type'', ''application/json'')]
                in Inr \<lparr> rq_url = js_string (map_of urls_api api) @ url2, rq_method = method,
                         rq_body = body1, rq_headers = Some headers1 \<rparr>)))"

subsection \<open>withdraw\<close>

text \<open>
  \<open>withdraw\<close> up to the request it sends: the parameter object of lines 1091--1099, and
  the request the base client signs for \<^verbatim>\<open>privatePostAccountCryptoWithdraw\<close>, which is
  \<open>sign\<close> on the path \<^verbatim>\<open>account/crypto/withdraw\<close> of the private API with the method
  POST. \<open>currency_id\<close> is \<^verbatim>\<open>currency['id']\<close> and \<open>amount\<close> what \<^verbatim>\<open>parseFloat\<close> reads
  from the amount.
\<close>

definition withdraw ::
    "encoders \<Rightarrow> exchange \<Rightarrow> string \<Rightarrow> jsnum \<Rightarrow> string \<Rightarrow> string option \<Rightarrow> params
      \<Rightarrow> error + request" where
  "withdraw enc this currency_id amount address tag params =
    (let request0 =
           [(''currency'', JStr currency_id),
            (''amount'', JNum amount),
            (''address'', JStr address)];
         request =
           (if truthy tag then AList.update ''paymentId'' (JStr (js_string tag)) request0
            else request0)
     in sign enc this ''account/crypto/withdraw'' ''private'' ''POST'' (extend request params)
          None None)"

section \<open>Sample records\<close>

text \<open>
  The records the examples below are evaluated on: the market ETH/BTC, adapters with and
  without it, with and without a cached order and credentials, the tickers, fills and
  orders of the examples, and the response of a gateway timeout.
\<close>

definition sample_market :: market where
  "sample_market =
    \<lparr> m_id = Some ''ETHBTC'', m_symbol = ''ETH/BTC'', m_quote = Some ''BTC'',
      m_feeCurrency = Some ''BTC'' \<rparr>"

definition empty_exchange :: exchange where
  "empty_exchange =
    \<lparr> markets_by_id = Map.empty, orders = Map.empty, apiKey = None, secret = None \<rparr>"

definition exchange_with_credentials :: exchange where
  "exchange_with_credentials =
    \<lparr> markets_by_id = Map.empty, orders = Map.empty,
      apiKey = Some ''key'', secret = Some ''secret'' \<rparr>"

definition cached_order :: "real option \<Rightarrow> unified_order" where
  "cached_order price =
    \<lparr> o_id = Some ''abc'', o_clientOrderId = Some ''abc'', o_timestamp = None,
      o_lastTradeTimestamp = None, o_status = Some ''open'', o_symbol = Some ''ETH/BTC'',
      o_type = Some ''market'', o_side = Some ''buy'', o_price = price, o_average = None,
      o_amount = Some 2, o_cost = None, o_filled = Some 0, o_remaining = Some 2,
      o_fee = None, o_trades = None \<rparr>"

definition exchange_with_cache :: "real option \<Rightarrow> exchange" where
  "exchange_with_cache price =
    \<lparr> markets_by_id = [''ETHBTC'' \<mapsto> sample_market],
      orders = [''abc'' \<mapsto> cached_order price],
      apiKey = None, secret = None \<rparr>"

definition ticker_110_100 :: raw_ticker where
  "ticker_110_100 =
    \<lparr> tk_timestamp = None, tk_volume = Some 2, tk_volumeQuote = Some 210,
      tk_open = Some 100, tk_last = Some 110, tk_high = None, tk_low = None,
      tk_bid = None, tk_ask = None \<rparr>"

definition ticker_open_0 :: raw_ticker where
  "ticker_open_0 =
    \<lparr> tk_timestamp = None, tk_volume = Some 0, tk_volumeQuote = Some 210,
      tk_open = Some 0, tk_last = Some 110, tk_high = None, tk_low = None,
      tk_bid = None, tk_ask = None \<rparr>"

definition ticker_without_last :: raw_ticker where
  "ticker_without_last =
    \<lparr> tk_timestamp = None, tk_volume = None, tk_volumeQuote = Some 210,
      tk_open = Some 100, tk_last = None, tk_high = None, tk_low = None,
      tk_bid = None, tk_ask = None \<rparr>"

definition trade_without_price :: raw_trade where
  "trade_without_price =
    \<lparr> rt_timestamp = Some 1540485704780, rt_symbol = None, rt_fee = Some 0.0004644,
      rt_clientOrderId = None, rt_price = None, rt_quantity = Some 1, rt_side = None,
      rt_id = Some ''386394956'' \<rparr>"

definition fill_100 :: raw_trade where
  "fill_100 =
    \<lparr> rt_timestamp = None, rt_symbol = None, rt_fee = Some 0.1, rt_clientOrderId = None,
      rt_price = Some 100, rt_quantity = Some 1, rt_side = None, rt_id = Some ''1'' \<rparr>"

definition fill_102 :: raw_trade where
  "fill_102 =
    \<lparr> rt_timestamp = None, rt_symbol = None, rt_fee = Some 0.2, rt_clientOrderId = None,
      rt_price = Some 102, rt_quantity = Some 1, rt_side = None, rt_id = Some ''2'' \<rparr>"

definition order_two_fills :: raw_order where
  "order_two_fills =
    \<lparr> ro_createdAt = None, ro_updatedAt = None, ro_symbol = Some ''ETHBTC'',
      ro_quantity = Some 2, ro_cumQuantity = Some 2, ro_status = Some ''filled'',
      ro_clientOrderId = Some ''abc'', ro_price = None, ro_type = Some ''market'',
      ro_side = Some ''buy'', ro_tradesReport = Some [fill_100, fill_102] \<rparr>"

definition order_awaiting_fills :: raw_order where
  "order_awaiting_fills =
    \<lparr> ro_createdAt = None, ro_updatedAt = None, ro_symbol = Some ''ETHBTC'',
      ro_quantity = Some 2, ro_cumQuantity = Some 0, ro_status = Some ''new'',
      ro_clientOrderId = Some ''abc'', ro_price = None, ro_type = Some ''market'',
      ro_side = Some ''buy'', ro_tradesReport = None \<rparr>"

definition order_without_symbol :: raw_order where
  "order_without_symbol =
    \<lparr> ro_createdAt = None, ro_updatedAt = None, ro_symbol = None, ro_quantity = Some 1,
      ro_cumQuantity = Some 0, ro_status = Some ''new'', ro_clientOrderId = Some ''abc'',
      ro_price = Some 50, ro_type = Some ''limit'', ro_side = Some ''buy'',
      ro_tradesReport = None \<rparr>"

definition gateway_timeout_body :: string where
  "gateway_timeout_body = ''{\"error\":{\"code\":504,\"message\":\"Gateway Timeout\"}}''"

definition gateway_timeout_response :: response where
  "gateway_timeout_response =
    \<lparr> rs_error = Some \<lparr> eb_code = Some ''504'', eb_message = Some ''Gateway Timeout'' \<rparr> \<rparr>"

text \<open>
  Encoders for a request whose path has no placeholder and whose parameters go to the
  body: the path is left as it is, and no query string is written.
\<close>

definition plain_encoders :: encoders where
  "plain_encoders = \<lparr> implodeParams = (\<lambda>path params. path), urlencode = (\<lambda>params. []) \<rparr>"

text \<open>
  The sums a record's fills stand for: price times quantity of the fills that carry both,
  and the fees of the fills that carry one.
\<close>

definition fills_cost :: "raw_trade list \<Rightarrow> real" where
  "fills_cost fills =
    sum_list (map (\<lambda>t. case (rt_price t, rt_quantity t) of (Some p, Some q) \<Rightarrow> p * q | _ \<Rightarrow> 0) fills)"

definition fills_fee :: "raw_trade list \<Rightarrow> real" where
  "fills_fee fills = sum_list (map (\<lambda>t. case rt_fee t of Some f \<Rightarrow> f | None \<Rightarrow> 0) fills)"

section \<open>Auxiliary facts\<close>

subsection \<open>Order status and the fields parseOrder copies\<close>

lemma parseOrderStatus_rejected:
  "parseOrderStatus s = Some ''rejected'' \<longleftrightarrow> s = Some ''rejected''"
  by (cases s) (auto simp: parseOrderStatus_def safeString_def js_string_def statuses_def)

lemma parseOrder_Inr:
  "parseOrder this order market = Inr r \<Longrightarrow>
     o_status r = parseOrderStatus (ro_status order) \<and> o_id r = ro_clientOrderId order"
  unfolding parseOrder_def Let_def
  by (auto split: sum.splits prod.splits)

lemma parseOrder_fills_error:
  "parseOrder_fills this market raw filled type price0 = Inl e \<Longrightarrow> e = TypeError"
  unfolding parseOrder_fills_def Let_def
  by (auto split: prod.splits option.splits)

lemma parseOrder_error:
  "parseOrder this order market = Inl e \<Longrightarrow> e = TypeError"
  unfolding parseOrder_def Let_def
  by (auto split: sum.splits prod.splits option.splits dest: parseOrder_fills_error)

subsection \<open>The loop over the fills\<close>

text \<open>
  Started with a cost, the loop adds the cost of every fill that has a price and a
  quantity, and the fee of every fill that has one; the fee stays unset only when there
  is no fill.
\<close>

lemma fills_loop_parseTrades:
  "fills_loop (parseTrades this fills market) (fc, Some c) =
     ((if fills = [] then fc else Some ((case fc of None \<Rightarrow> 0 | Some x \<Rightarrow> x) + fills_fee fills)),
      Some (c + fills_cost fills))"
proof (induction fills arbitrary: fc c)
  case Nil
  then show ?case by (simp add: parseTrades_def fills_cost_def)
next
  case (Cons t ts)
  have step: "fills_loop (parseTrades this (t # ts) market) (fc, Some c) =
      fills_loop (parseTrades this ts market)
        (Some ((case fc of None \<Rightarrow> 0 | Some x \<Rightarrow> x) + (case rt_fee t of Some f \<Rightarrow> f | None \<Rightarrow> 0)),
         Some (c + (case (rt_price t, rt_quantity t) of (Some p, Some q) \<Rightarrow> p * q | _ \<Rightarrow> 0)))"
    by (simp add: parseTrades_def parseTrade_def Let_def sum_js_def js_mul_def
          split: option.splits prod.splits)
  show ?case
    unfolding step Cons.IH
    by (simp add: fills_cost_def fills_fee_def)
qed

lemma parseOrder_fills_price:
  "parseOrder_fills this market raw filled type price0 = Inr (trades, fee, average, cost, price) \<Longrightarrow>
     price = (case price0 of
                Some p \<Rightarrow> Some p
              | None \<Rightarrow> if type = Some ''market'' \<and> (\<exists>f. filled = Some f \<and> f > 0)
                        then average else None)"
  unfolding parseOrder_fills_def Let_def
  by (auto split: prod.splits option.splits if_splits)

lemma parseOrder_fills_returns:
  "raw = [] \<or> market \<noteq> None \<Longrightarrow> \<exists>res. parseOrder_fills this market raw filled type price0 = Inr res"
  unfolding parseOrder_fills_def Let_def
  by (auto simp: parseTrades_def split: prod.splits option.splits)

lemma parseOrder_fills_value:
  "raw \<noteq> [] \<Longrightarrow>
   parseOrder_fills this (Some m) raw filled type price0 =
     Inr (parseTrades this raw (Some m),
          Some \<lparr> fee_cost = fills_fee raw, fee_currency = m_quote m \<rparr>,
          (case filled of None \<Rightarrow> None | Some f \<Rightarrow> if f > 0 then Some (fills_cost raw / f) else None),
          Some (fills_cost raw),
          (case price0 of
             Some p \<Rightarrow> Some p
           | None \<Rightarrow>
               (case filled of
                  None \<Rightarrow> None
                | Some f \<Rightarrow> if f > 0 \<and> type = Some ''market'' then Some (fills_cost raw / f) else None)))"
  unfolding parseOrder_fills_def Let_def
  by (simp add: fills_loop_parseTrades split: option.splits)

lemma parseOrder_awaiting_fills:
  "parseOrder (exchange_with_cache (Some 50)) (order_awaiting_fills \<lparr> ro_status := s \<rparr>) None =
     Inr \<lparr> o_id = Some ''abc'', o_clientOrderId = Some ''abc'', o_timestamp = None,
           o_lastTradeTimestamp = None, o_status = parseOrderStatus s, o_symbol = Some ''ETH/BTC'',
           o_type = Some ''market'', o_side = Some ''buy'', o_price = Some 50, o_average = None,
           o_amount = Some 2, o_cost = Some 0, o_filled = Some 0, o_remaining = Some 2,
           o_fee = None, o_trades = None \<rparr>"
  by (simp add: parseOrder_def order_awaiting_fills_def exchange_with_cache_def
        sample_market_def cached_order_def js_string_def Let_def)

text \<open>
  \<open>parseOrder\<close> returns an order when the record has no fills, or a market is given
  or found by the record's symbol.
\<close>

lemma parseOrder_returns:
  assumes "ro_tradesReport order = None \<or> ro_tradesReport order = Some [] \<or> market \<noteq> None \<or>
      (\<exists>mid m. ro_symbol order = Some mid \<and> markets_by_id this mid = Some m)"
  shows "\<exists>r. parseOrder this order market = Inr r"
proof (cases "ro_tradesReport order")
  case None
  then show ?thesis
    unfolding parseOrder_def Let_def by (simp split: prod.splits)
next
  case (Some raw)
  define mk where "mk = (case ro_symbol order of
          None \<Rightarrow> market
        | Some mid \<Rightarrow> (case markets_by_id this mid of Some m \<Rightarrow> Some m | None \<Rightarrow> market))"
  define sym where "sym = (case ro_symbol order of
          None \<Rightarrow> None
        | Some mid \<Rightarrow> (case markets_by_id this mid of Some m \<Rightarrow> Some (m_symbol m) | None \<Rightarrow> Some mid))"
  have ms: "(case ro_symbol order of
          None \<Rightarrow> (market, None)
        | Some mid \<Rightarrow>
            (case markets_by_id this mid of
               Some m \<Rightarrow> (Some m, Some (m_symbol m))
             | None \<Rightarrow> (market, Some mid))) = (mk, sym)"
    by (simp add: mk_def sym_def split: option.splits)
  from assms Some have "raw = [] \<or> mk \<noteq> None"
    by (auto simp: mk_def split: option.splits)
  then obtain res where "parseOrder_fills this mk raw (ro_cumQuantity order) (ro_type order)
      (case ro_price order of
          None \<Rightarrow> (case orders this (js_string (ro_clientOrderId order)) of
                     Some cached \<Rightarrow> o_price cached | None \<Rightarrow> None)
        | Some p \<Rightarrow> Some p) = Inr res"
    using parseOrder_fills_returns by blast
  with Some show ?thesis
    unfolding parseOrder_def Let_def ms
    by (cases res) (simp split: prod.splits)
qed

lemma parseOrder_symbol_without_field:
  "parseOrder this order market = Inr r \<Longrightarrow> ro_symbol order = None \<Longrightarrow>
     o_symbol r = (case market of Some m \<Rightarrow> m_id m | None \<Rightarrow> None)"
  unfolding parseOrder_def Let_def
  by (auto split: sum.splits prod.splits)

subsection \<open>Parameter objects\<close>

lemma map_of_extend:
  "k \<notin> fst ` set b \<Longrightarrow> map_of (extend a b) k = map_of a k"
  unfolding extend_def
  by (induction b arbitrary: a) (auto simp: update_conv')

lemma keys_extend:
  "fst ` set (extend a b) = fst ` set a \<union> fst ` set b"
  unfolding extend_def
proof (induction b arbitrary: a)
  case Nil
  then show ?case by simp
next
  case (Cons x xs)
  have "fst ` set (AList.update (fst x) (snd x) a) = insert (fst x) (fst ` set a)"
    by (simp add: dom_update)
  with Cons.IH [of "AList.update (fst x) (snd x) a"] show ?case
    by (simp add: case_prod_beta)
qed

lemma extend_not_empty:
  "a \<noteq> [] \<Longrightarrow> extend a b \<noteq> []"
  using keys_extend [of a b] by (cases a) auto

lemma withdraw_path_params: "extractParams ''account/crypto/withdraw'' = []"
  by (simp add: is_word_char_def)

lemma base64_key_secret: "stringToBase64 (''key'' @ '':'' @ ''secret'') = ''a2V5OnNlY3JldA==''"
  by (simp add: stringToBase64_def base64_char_def base64_alphabet_def)

section \<open>Error classification\<close>

text \<open>
  C1, as the code has it. A call that failed with HTTP status 503 or 504 and has a decoded
  response raises \<open>ExchangeNotAvailable\<close>, whatever its body says, the body
  \<^verbatim>\<open>{"error":{"code":504,"message":"Gateway Timeout"}}\<close> included: the status is tested
  before the body is read. A call with HTTP status 429 raises nothing and returns. The
  entry \<^verbatim>\<open>504\<close> of the table, \<open>RequestTimeout\<close>, is raised when the body's error code is
  504 and the HTTP status is 400 or more and none of 503, 504 and 429.
\<close>

theorem handleErrors_classes:
  "(code = 503 \<or> code = 504 \<longrightarrow>
      handleErrors code body (Some resp) = Inl (ExchangeNotAvailable (exchange_id @ '' '' @ body))) \<and>
   handleErrors 429 body response = Inr () \<and>
   (400 \<le> code \<and> code \<notin> {503, 504, 429} \<and> take 1 body = ''{'' \<and>
    rs_error resp = Some err \<and> eb_code err = Some ''504'' \<longrightarrow>
      handleErrors code body (Some resp) = Inl (RequestTimeout (exchange_id @ '' '' @ body)))"
  by (cases response)
     (simp_all add: handleErrors_def throwExactlyMatchedException_def exceptions_def js_string_def)

text \<open>
  The three cases on the gateway-timeout response: with status 504 and with status 429,
  and with status 500, where the body's code decides.
\<close>

theorem handleErrors_classes_witness:
  "handleErrors 504 gateway_timeout_body (Some gateway_timeout_response)
     = Inl (ExchangeNotAvailable (exchange_id @ '' '' @ gateway_timeout_body)) \<and>
   handleErrors 429 gateway_timeout_body (Some gateway_timeout_response) = Inr () \<and>
   handleErrors 500 gateway_timeout_body (Some gateway_timeout_response)
     = Inl (RequestTimeout (exchange_id @ '' '' @ gateway_timeout_body))"
  using handleErrors_classes [where code = 504 and body = gateway_timeout_body
          and resp = gateway_timeout_response and response = "Some gateway_timeout_response"
          and err = "\<lparr> eb_code = Some ''504'', eb_message = Some ''Gateway Timeout'' \<rparr>"]
        handleErrors_classes [where code = 500 and body = gateway_timeout_body
          and resp = gateway_timeout_response and response = "Some gateway_timeout_response"
          and err = "\<lparr> eb_code = Some ''504'', eb_message = Some ''Gateway Timeout'' \<rparr>"]
  by (simp add: gateway_timeout_body_def gateway_timeout_response_def)

text \<open>
  C1 as the spec states it fails: HTTP 504 with the gateway-timeout body raises
  \<open>ExchangeNotAvailable\<close>, not \<open>RequestTimeout\<close>.
\<close>

theorem handleErrors_504_counterexample:
  "handleErrors 504 gateway_timeout_body (Some gateway_timeout_response)
     = Inl (ExchangeNotAvailable (''hitbtc '' @ gateway_timeout_body))
   \<and> handleErrors 504 gateway_timeout_body (Some gateway_timeout_response)
     \<noteq> Inl (RequestTimeout (''hitbtc '' @ gateway_timeout_body))"
  by (simp add: handleErrors_def exchange_id_def)

section \<open>Orders with embedded fills\<close>

text \<open>
  C2 says that for every raw order with a non-empty \<^verbatim>\<open>tradesReport\<close>, \<open>parseOrder\<close>
  sets cost to the sum of price times quantity over the fills, fee.cost to the sum of
  their fees, and average to cost divided by filled. On the order of the spec's example
  (two fills, 1 at 100 with fee 0.1 and 1 at 102 with fee 0.2) whose symbol is not in the
  market table, and with no market argument, \<open>parseOrder\<close> returns no order: the read
  of \<^verbatim>\<open>market['quote']\<close> for the fee's currency raises a \<open>TypeError\<close>.
\<close>

theorem parseOrder_fills_unresolved_market:
  "parseOrder empty_exchange order_two_fills None = Inl TypeError"
  by (simp add: parseOrder_def parseOrder_fills_def parseTrades_def parseTrade_def
        empty_exchange_def order_two_fills_def
        fill_100_def fill_102_def js_mul_def sum_js_def Let_def)

text \<open>
  Where the market is resolved (given by the caller or found by the record's symbol), the
  sums are as C2 says: cost and fee are the sums over the fills, the average is cost by
  filled when filled is positive, and a market order without a price, also in the cache,
  takes the average as its price.
\<close>

lemma parseOrder_fills_sums:
  assumes "ro_tradesReport order = Some fills" and "fills \<noteq> []"
    and "(case ro_symbol order of
            None \<Rightarrow> market0
          | Some mid \<Rightarrow> (case markets_by_id this mid of Some m' \<Rightarrow> Some m' | None \<Rightarrow> market0)) = Some m"
  shows "\<exists>r. parseOrder this order market0 = Inr r \<and>
      o_cost r = Some (fills_cost fills) \<and>
      o_fee r = Some \<lparr> fee_cost = fills_fee fills, fee_currency = m_quote m \<rparr> \<and>
      o_average r =
        (case ro_cumQuantity order of
           None \<Rightarrow> None
         | Some f \<Rightarrow> if f > 0 then Some (fills_cost fills / f) else None) \<and>
      (ro_type order = Some ''market'' \<and> ro_price order = None \<and>
       (\<forall>c. orders this (js_string (ro_clientOrderId order)) = Some c \<longrightarrow> o_price c = None) \<and>
       (\<exists>f. ro_cumQuantity order = Some f \<and> f > 0)
         \<longrightarrow> o_price r = o_average r)"
proof -
  define sym where "sym = (case ro_symbol order of
          None \<Rightarrow> None
        | Some mid \<Rightarrow> (case markets_by_id this mid of Some m \<Rightarrow> Some (m_symbol m) | None \<Rightarrow> Some mid))"
  have ms: "(case ro_symbol order of
          None \<Rightarrow> (market0, None)
        | Some mid \<Rightarrow>
            (case markets_by_id this mid of
               Some m \<Rightarrow> (Some m, Some (m_symbol m))
             | None \<Rightarrow> (market0, Some mid))) = (Some m, sym)"
    using assms(3) by (auto simp: sym_def split: option.splits)
  show ?thesis
    unfolding parseOrder_def Let_def ms
    using assms(1,2)
    by (auto simp: parseOrder_fills_value split: prod.splits option.splits)
qed

lemma parseOrder_two_fills:
  "\<exists>r. parseOrder (exchange_with_cache None) order_two_fills None = Inr r \<and>
      o_cost r = Some 202 \<and> map_option fee_cost (o_fee r) = Some 0.3 \<and>
      o_average r = Some 101 \<and> o_price r = Some 101"
  by (simp add: parseOrder_def parseOrder_fills_def parseTrades_def parseTrade_def
        exchange_with_cache_def order_two_fills_def cached_order_def sample_market_def
        fill_100_def fill_102_def js_mul_def sum_js_def js_string_def Let_def)

section \<open>Price backfill from the order cache\<close>

text \<open>
  C3, as the code has it. For a raw order with no price whose \<^verbatim>\<open>clientOrderId\<close> is a key
  of the order cache, an order that \<open>parseOrder\<close> returns has the cached order's price
  when that price is set (cached 50 gives 50); when the cached price is unset, the price
  is the fills' average for a market order with fills and a positive filled quantity, and
  unset otherwise. \<open>parseOrder\<close> returns an order when the record has no fills, or a
  market is given or found by the record's symbol.
\<close>

theorem parseOrder_price_backfill:
  "ro_price order = None \<and> ro_clientOrderId order = Some cid \<and> orders this cid = Some cached \<longrightarrow>
     (parseOrder this order market = Inr r \<longrightarrow>
        (o_price cached = Some p \<longrightarrow> o_price r = Some p) \<and>
        (o_price cached = None \<longrightarrow>
           o_price r =
             (if ro_type order = Some ''market'' \<and> ro_tradesReport order \<noteq> None \<and>
                 (\<exists>f. ro_cumQuantity order = Some f \<and> f > 0)
              then o_average r else None))) \<and>
     (ro_tradesReport order = None \<or> ro_tradesReport order = Some [] \<or> market \<noteq> None \<or>
      (\<exists>mid m. ro_symbol order = Some mid \<and> markets_by_id this mid = Some m)
        \<longrightarrow> (\<exists>r'. parseOrder this order market = Inr r'))"
proof (intro impI conjI)
  assume h: "ro_price order = None \<and> ro_clientOrderId order = Some cid \<and> orders this cid = Some cached"
  {
    assume "parseOrder this order market = Inr r" and "o_price cached = Some p"
    with h show "o_price r = Some p"
      unfolding parseOrder_def Let_def
      by (auto simp: js_string_def split: sum.splits prod.splits option.splits
            dest: parseOrder_fills_price)
  }
  {
    assume "parseOrder this order market = Inr r" and "o_price cached = None"
    with h show "o_price r =
             (if ro_type order = Some ''market'' \<and> ro_tradesReport order \<noteq> None \<and>
                 (\<exists>f. ro_cumQuantity order = Some f \<and> f > 0)
              then o_average r else None)"
      unfolding parseOrder_def Let_def
      by (auto simp: js_string_def split: sum.splits prod.splits option.splits
            dest!: parseOrder_fills_price)
  }
  {
    assume "ro_tradesReport order = None \<or> ro_tradesReport order = Some [] \<or> market \<noteq> None \<or>
      (\<exists>mid m. ro_symbol order = Some mid \<and> markets_by_id this mid = Some m)"
    then show "\<exists>r'. parseOrder this order market = Inr r'"
      by (rule parseOrder_returns)
  }
qed

text \<open>
  The spec's example: the cached price is 50, and the parsed order's price is 50. Where
  the cached order has no price, the market order with two fills takes their average.
\<close>

theorem parseOrder_price_backfill_witness:
  "ro_price order_awaiting_fills = None \<and>
   ro_clientOrderId order_awaiting_fills = Some ''abc'' \<and>
   orders (exchange_with_cache (Some 50)) ''abc'' = Some (cached_order (Some 50)) \<and>
   o_price (cached_order (Some 50)) = Some 50 \<and>
   ro_tradesReport order_awaiting_fills = None \<and>
   (\<exists>r. parseOrder (exchange_with_cache (Some 50)) order_awaiting_fills None = Inr r \<and>
        o_price r = Some 50) \<and>
   orders (exchange_with_cache None) ''abc'' = Some (cached_order None) \<and>
   o_price (cached_order None) = None \<and>
   (\<exists>r. parseOrder (exchange_with_cache None) order_two_fills None = Inr r \<and>
        o_price r = o_average r)"
proof -
  let ?ex = "exchange_with_cache (Some 50)"
  let ?ex' = "exchange_with_cache None"
  have h: "ro_price order_awaiting_fills = None \<and>
      ro_clientOrderId order_awaiting_fills = Some ''abc'' \<and>
      orders ?ex ''abc'' = Some (cached_order (Some 50))"
    by (simp add: order_awaiting_fills_def exchange_with_cache_def)
  have c: "o_price (cached_order (Some 50)) = Some 50"
    by (simp add: cached_order_def)
  have t: "ro_tradesReport order_awaiting_fills = None"
    by (simp add: order_awaiting_fills_def)
  from parseOrder_price_backfill [of order_awaiting_fills "''abc''" ?ex "cached_order (Some 50)"
      None "cached_order None" 50] h t
  obtain r where r: "parseOrder ?ex order_awaiting_fills None = Inr r"
    by blast
  from parseOrder_price_backfill [of order_awaiting_fills "''abc''" ?ex "cached_order (Some 50)"
      None r 50] h c r
  have p: "o_price r = Some 50" by blast
  have h': "ro_price order_two_fills = None \<and>
      ro_clientOrderId order_two_fills = Some ''abc'' \<and>
      orders ?ex' ''abc'' = Some (cached_order None)"
    by (simp add: order_two_fills_def exchange_with_cache_def)
  have c': "o_price (cached_order None) = None"
    by (simp add: cached_order_def)
  have t': "ro_symbol order_two_fills = Some ''ETHBTC'' \<and>
      markets_by_id ?ex' ''ETHBTC'' = Some sample_market"
    by (simp add: order_two_fills_def exchange_with_cache_def)
  have m: "ro_type order_two_fills = Some ''market'' \<and> ro_tradesReport order_two_fills \<noteq> None \<and>
      (\<exists>f. ro_cumQuantity order_two_fills = Some f \<and> f > 0)"
    by (simp add: order_two_fills_def)
  from parseOrder_price_backfill [of order_two_fills "''abc''" ?ex' "cached_order None"
      None "cached_order None" 0] h' t'
  obtain r' where r': "parseOrder ?ex' order_two_fills None = Inr r'"
    by blast
  from parseOrder_price_backfill [of order_two_fills "''abc''" ?ex' "cached_order None"
      None r' 0] h' c' r' m
  have p': "o_price r' = o_average r'" by simp
  from h c t r p h' c' r' p' show ?thesis by blast
qed

text \<open>
  C3 as the spec states it fails where the cached order has no price: the cached market
  order \<^verbatim>\<open>abc\<close> has none, the record has two fills, and the parsed price is their
  average 101, not the cached one.
\<close>

theorem parseOrder_cached_price_unset_counterexample:
  "ro_price order_two_fills = None \<and>
   ro_clientOrderId order_two_fills = Some ''abc'' \<and>
   orders (exchange_with_cache None) ''abc'' = Some (cached_order None) \<and>
   o_price (cached_order None) = None \<and>
   map_sum id o_price (parseOrder (exchange_with_cache None) order_two_fills None) = Inr (Some 101)"
  by (simp add: parseOrder_def parseOrder_fills_def parseTrades_def parseTrade_def
        exchange_with_cache_def order_two_fills_def cached_order_def sample_market_def
        fill_100_def fill_102_def js_mul_def sum_js_def js_string_def Let_def)

section \<open>Derived ticker fields\<close>

text \<open>
  C4. For every raw ticker, \<open>parseTicker\<close> computes change = last - open, average =
  (last + open) / 2, percentage = change / open * 100 and vwap = quoteVolume /
  baseVolume only when both operands are defined and the denominator is not zero, and
  leaves the field unset otherwise: with last and open defined, change and average have
  these values, and so has percentage when open is positive; with last or open missing
  all three are unset, and open = 0 leaves percentage unset; a percentage that is set has
  both operands and a non-zero open; and likewise for vwap with the two volumes.
\<close>

theorem parseTicker_derived:
  "(tk_last ticker = Some l \<and> tk_open ticker = Some opn \<longrightarrow>
      ti_change (parseTicker ticker market) = Some (l - opn) \<and>
      ti_average (parseTicker ticker market) = Some ((l + opn) / 2) \<and>
      (opn > 0 \<longrightarrow> ti_percentage (parseTicker ticker market) = Some ((l - opn) / opn * 100))) \<and>
   (tk_last ticker = None \<or> tk_open ticker = None \<longrightarrow>
      ti_change (parseTicker ticker market) = None \<and>
      ti_average (parseTicker ticker market) = None \<and>
      ti_percentage (parseTicker ticker market) = None) \<and>
   (tk_open ticker = Some 0 \<longrightarrow> ti_percentage (parseTicker ticker market) = None) \<and>
   (ti_percentage (parseTicker ticker market) = Some p \<longrightarrow>
      (\<exists>l' o'. tk_last ticker = Some l' \<and> tk_open ticker = Some o' \<and> o' \<noteq> 0
         \<and> p = (l' - o') / o' * 100)) \<and>
   (tk_volumeQuote ticker = Some qv \<and> tk_volume ticker = Some bv \<and> bv > 0 \<longrightarrow>
      ti_vwap (parseTicker ticker market) = Some (qv / bv)) \<and>
   (tk_volumeQuote ticker = None \<or> tk_volume ticker = None \<or> tk_volume ticker = Some 0 \<longrightarrow>
      ti_vwap (parseTicker ticker market) = None) \<and>
   (ti_vwap (parseTicker ticker market) = Some v \<longrightarrow>
      (\<exists>qv' bv'. tk_volumeQuote ticker = Some qv' \<and> tk_volume ticker = Some bv' \<and> bv' \<noteq> 0
         \<and> v = qv' / bv'))"
  by (auto simp: parseTicker_def Let_def sum_js_def split: option.splits if_splits)

text \<open>
  The spec's example: last = 110 and open = 100 give change 10, average 105 and
  percentage 10; open = 0 leaves percentage unset; a ticker without last has none of the
  three, and none without a volume has a vwap.
\<close>

theorem parseTicker_derived_witness:
  "ti_change (parseTicker ticker_110_100 None) = Some 10 \<and>
   ti_average (parseTicker ticker_110_100 None) = Some 105 \<and>
   ti_percentage (parseTicker ticker_110_100 None) = Some 10 \<and>
   ti_vwap (parseTicker ticker_110_100 None) = Some 105 \<and>
   ti_percentage (parseTicker ticker_open_0 None) = None \<and>
   ti_vwap (parseTicker ticker_open_0 None) = None \<and>
   ti_change (parseTicker ticker_without_last None) = None \<and>
   ti_average (parseTicker ticker_without_last None) = None \<and>
   ti_percentage (parseTicker ticker_without_last None) = None \<and>
   ti_vwap (parseTicker ticker_without_last None) = None"
  using parseTicker_derived [of ticker_110_100 110 100 None 10 210 2 105]
        parseTicker_derived [of ticker_open_0 110 0 None 0 210 0 0]
        parseTicker_derived [of ticker_without_last 0 100 None 0 210 0 0]
  by (simp add: ticker_110_100_def ticker_open_0_def ticker_without_last_def)

section \<open>Order status\<close>

text \<open>
  C5. For every status string \<open>s\<close>, \<open>parseOrderStatus\<close> maps \<open>s\<close> through the fixed
  table new \<open>\<rightarrow>\<close> open, suspended \<open>\<rightarrow>\<close> open, partiallyFilled \<open>\<rightarrow>\<close> open, filled \<open>\<rightarrow>\<close>
  closed, canceled \<open>\<rightarrow>\<close> canceled, expired \<open>\<rightarrow>\<close> failed, and returns any other string
  unchanged.
\<close>

theorem parseOrderStatus_table:
  "parseOrderStatus (Some ''new'') = Some ''open'' \<and>
   parseOrderStatus (Some ''suspended'') = Some ''open'' \<and>
   parseOrderStatus (Some ''partiallyFilled'') = Some ''open'' \<and>
   parseOrderStatus (Some ''filled'') = Some ''closed'' \<and>
   parseOrderStatus (Some ''canceled'') = Some ''canceled'' \<and>
   parseOrderStatus (Some ''expired'') = Some ''failed'' \<and>
   (\<forall>s. s \<notin> {''new'', ''suspended'', ''partiallyFilled'', ''filled'', ''canceled'', ''expired''}
      \<longrightarrow> parseOrderStatus (Some s) = Some s)"
  by (simp add: parseOrderStatus_def safeString_def js_string_def statuses_def)

theorem parseOrderStatus_table_witness:
  "''rejected'' \<notin> {''new'', ''suspended'', ''partiallyFilled'', ''filled'', ''canceled'', ''expired''}
   \<and> parseOrderStatus (Some ''rejected'') = Some ''rejected''
   \<and> parseOrderStatus (Some ''filled'') = Some ''closed''"
  using parseOrderStatus_table by simp

section \<open>The cost of a trade\<close>

text \<open>
  C6 says that \<open>parseTrade\<close> leaves the cost unset when the price or the quantity is
  absent. On a fill with a quantity and no price the cost is not unset: it is the product
  \<^verbatim>\<open>price * amount\<close> of \<^verbatim>\<open>undefined\<close> and a number, which is \<open>NaN\<close>.
\<close>

theorem parseTrade_cost_without_price:
  "t_cost (parseTrade empty_exchange trade_without_price None) = NaN"
  by (simp add: parseTrade_def trade_without_price_def empty_exchange_def js_mul_def)

text \<open>
  In general the cost is price times quantity when the record has both, and \<open>NaN\<close> when
  it lacks one.
\<close>

lemma parseTrade_cost:
  "t_cost (parseTrade this trade market) =
     (case (rt_price trade, rt_quantity trade) of (Some p, Some q) \<Rightarrow> Fin (p * q) | _ \<Rightarrow> NaN)"
  by (simp add: parseTrade_def Let_def js_mul_def split: option.splits prod.splits)

section \<open>Order creation\<close>

text \<open>
  C7 says that for every successful order-creation response \<open>createOrder\<close> throws
  \<open>InvalidOrder\<close> exactly when the parsed order's status is \<^verbatim>\<open>rejected\<close>, and otherwise
  stores the parsed order in the order cache under its id and returns it. On a response
  that is not rejected (its status is \<^verbatim>\<open>filled\<close>), has two fills and names a symbol the
  loaded market table does not have, \<open>createOrder\<close> does neither: \<open>parseOrder\<close> is
  called without a market, its read of \<^verbatim>\<open>market['quote']\<close> raises, and \<open>createOrder\<close>
  ends with that \<open>TypeError\<close>, the order neither returned nor cached.
\<close>

theorem createOrder_fills_unresolved_market:
  "ro_status (order_two_fills \<lparr> ro_symbol := Some ''XRPUSDT'' \<rparr>) = Some ''filled'' \<and>
   markets_by_id (exchange_with_cache None) ''ETHBTC'' = Some sample_market \<and>
   markets_by_id (exchange_with_cache None) ''XRPUSDT'' = None \<and>
   createOrder (\<lambda>_. ''{}'') (exchange_with_cache None)
       (order_two_fills \<lparr> ro_symbol := Some ''XRPUSDT'' \<rparr>)
     = Inl TypeError"
  by (simp add: createOrder_def parseOrder_def parseOrder_fills_def parseTrades_def
        parseTrade_def exchange_with_cache_def order_two_fills_def cached_order_def
        sample_market_def fill_100_def fill_102_def js_mul_def sum_js_def js_string_def Let_def)

text \<open>
  For every order-creation response that \<open>parseOrder\<close> parses, \<open>createOrder\<close> does what
  C7 says: it throws \<open>InvalidOrder\<close> exactly when the parsed order's status is
  \<^verbatim>\<open>rejected\<close> (which is when the response's status is); otherwise it stores the parsed
  order in the order cache under its id, replacing any entry cached under that id and no
  other, and returns it. The response is parsed whenever it has no fills or its symbol is
  in the market table.
\<close>

theorem createOrder_rejected_or_cached:
  "(parseOrder this response None = Inr order \<longrightarrow>
      (o_status order = Some ''rejected'' \<longleftrightarrow> ro_status response = Some ''rejected'') \<and>
      (o_status order = Some ''rejected'' \<longrightarrow>
         createOrder json this response =
           Inl (InvalidOrder (exchange_id @ '' order was rejected by the exchange '' @ json order))) \<and>
      (o_status order \<noteq> Some ''rejected'' \<longrightarrow>
         (\<exists>this'. createOrder json this response = Inr (order, this') \<and>
             orders this' (js_string (o_id order)) = Some order \<and>
             (\<forall>k. k \<noteq> js_string (o_id order) \<longrightarrow> orders this' k = orders this k) \<and>
             markets_by_id this' = markets_by_id this \<and>
             apiKey this' = apiKey this \<and> secret this' = secret this))) \<and>
   ((\<exists>msg. createOrder json this response = Inl (InvalidOrder msg)) \<longleftrightarrow>
    (\<exists>order'. parseOrder this response None = Inr order' \<and> o_status order' = Some ''rejected'')) \<and>
   (ro_tradesReport response = None \<or> ro_tradesReport response = Some [] \<or>
    (\<exists>mid m. ro_symbol response = Some mid \<and> markets_by_id this mid = Some m)
      \<longrightarrow> (\<exists>order'. parseOrder this response None = Inr order'))"
proof -
  have c: "ro_tradesReport response = None \<or> ro_tradesReport response = Some [] \<or>
      (\<exists>mid m. ro_symbol response = Some mid \<and> markets_by_id this mid = Some m)
        \<Longrightarrow> \<exists>order'. parseOrder this response None = Inr order'"
    by (rule parseOrder_returns) blast
  have a: "parseOrder this response None = Inr order \<Longrightarrow>
      (o_status order = Some ''rejected'' \<longleftrightarrow> ro_status response = Some ''rejected'')"
    by (simp add: parseOrder_Inr parseOrderStatus_rejected)
  have b: "(\<exists>msg. createOrder json this response = Inl (InvalidOrder msg)) \<longleftrightarrow>
    (\<exists>order'. parseOrder this response None = Inr order' \<and> o_status order' = Some ''rejected'')"
    by (cases "parseOrder this response None")
       (auto simp: createOrder_def Let_def dest: parseOrder_error)
  have d: "parseOrder this response None = Inr order \<Longrightarrow> o_status order \<noteq> Some ''rejected'' \<Longrightarrow>
      createOrder json this response =
        Inr (order, this\<lparr> orders := (orders this)(js_string (o_id order) \<mapsto> order) \<rparr>)"
    by (simp add: createOrder_def Let_def)
  have e: "parseOrder this response None = Inr order \<Longrightarrow> o_status order = Some ''rejected'' \<Longrightarrow>
      createOrder json this response =
        Inl (InvalidOrder (exchange_id @ '' order was rejected by the exchange '' @ json order))"
    by (simp add: createOrder_def)
  show ?thesis
    using a b c d e by auto
qed

text \<open>
  A new order replaces the entry cached under \<^verbatim>\<open>abc\<close>; the same response with the status
  \<^verbatim>\<open>rejected\<close> is refused.
\<close>

theorem createOrder_rejected_or_cached_witness:
  "(\<exists>order this'.
      parseOrder (exchange_with_cache (Some 50)) order_awaiting_fills None = Inr order \<and>
      o_status order = Some ''open'' \<and>
      createOrder (\<lambda>_. ''{}'') (exchange_with_cache (Some 50)) order_awaiting_fills
        = Inr (order, this') \<and>
      orders (exchange_with_cache (Some 50)) ''abc'' = Some (cached_order (Some 50)) \<and>
      orders this' ''abc'' = Some order) \<and>
   (\<exists>order.
      parseOrder (exchange_with_cache (Some 50))
        (order_awaiting_fills \<lparr> ro_status := Some ''rejected'' \<rparr>) None = Inr order \<and>
      o_status order = Some ''rejected'' \<and>
      createOrder (\<lambda>_. ''{}'') (exchange_with_cache (Some 50))
          (order_awaiting_fills \<lparr> ro_status := Some ''rejected'' \<rparr>)
        = Inl (InvalidOrder ''hitbtc order was rejected by the exchange {}''))"
proof -
  let ?ex = "exchange_with_cache (Some 50)"
  let ?rej = "order_awaiting_fills \<lparr> ro_status := Some ''rejected'' \<rparr>"
  obtain o1 where p1: "parseOrder ?ex order_awaiting_fills None = Inr o1"
    and s1: "o_status o1 = Some ''open''" and i1: "o_id o1 = Some ''abc''"
    using parseOrder_awaiting_fills [of "Some ''new''"]
    by (simp add: order_awaiting_fills_def parseOrderStatus_def safeString_def js_string_def
          statuses_def)
  obtain o2 where p2: "parseOrder ?ex ?rej None = Inr o2"
    and s2: "o_status o2 = Some ''rejected''"
    using parseOrder_awaiting_fills [of "Some ''rejected''"]
    by (simp add: parseOrderStatus_def safeString_def js_string_def statuses_def)
  from createOrder_rejected_or_cached [where this = ?ex and response = order_awaiting_fills
      and order = o1 and json = "\<lambda>_. ''{}''"] p1 s1 i1
  have w1: "\<exists>this'. createOrder (\<lambda>_. ''{}'') ?ex order_awaiting_fills = Inr (o1, this')
              \<and> orders this' ''abc'' = Some o1"
    by (auto simp: js_string_def)
  from createOrder_rejected_or_cached [where this = ?ex and response = ?rej
      and order = o2 and json = "\<lambda>_. ''{}''"] p2 s2
  have w2: "createOrder (\<lambda>_. ''{}'') ?ex ?rej
              = Inl (InvalidOrder ''hitbtc order was rejected by the exchange {}'')"
    by (simp add: exchange_id_def)
  have c: "orders ?ex ''abc'' = Some (cached_order (Some 50))"
    by (simp add: exchange_with_cache_def)
  show ?thesis
    using p1 s1 w1 p2 s2 w2 c by auto
qed

section \<open>Signing a request\<close>

text \<open>
  C8. For every call that is not public, \<open>sign\<close> fails with an authentication error
  when the API key or the secret is absent; otherwise it produces a request descriptor
  whose Authorization header is \<^verbatim>\<open>Basic\<close>, a space, and the Base64 encoding of the key, a
  colon and the secret. For a GET request the parameters that are not path parameters
  become the query string of the URL and the body is left as it was given; for any other
  method they become a JSON body and the URL has no query string. Where there is no such
  parameter, neither a query string nor a body is written.
\<close>

theorem sign_private:
  "api \<noteq> ''public'' \<longrightarrow>
     (\<not> truthy (apiKey this) \<or> \<not> truthy (secret this) \<longrightarrow>
        (\<exists>msg. sign enc this path api method params headers body = Inl (AuthenticationError msg))) \<and>
     (apiKey this = Some key \<and> key \<noteq> [] \<and> secret this = Some sec \<and> sec \<noteq> [] \<longrightarrow>
        (\<exists>r. sign enc this path api method params headers body = Inr r \<and>
           rq_headers r =
             Some [(''Authorization'', ''Basic '' @ stringToBase64 (key @ '':'' @ sec)),
                   (''Content-Type'', ''application/json'')] \<and>
           rq_method r = method \<and>
           (method = ''GET'' \<longrightarrow>
              rq_url r =
                js_string (map_of urls_api api) @ ''/api/2/'' @ implodeParams enc path params @
                (if omit params (extractParams path) = [] then []
                 else ''?'' @ urlencode enc (omit params (extractParams path))) \<and>
              rq_body r = body) \<and>
           (method \<noteq> ''GET'' \<longrightarrow>
              rq_url r = js_string (map_of urls_api api) @ ''/api/2/'' @ implodeParams enc path params \<and>
              rq_body r =
                (if omit params (extractParams path) = [] then body
                 else Some (Json (omit params (extractParams path)))))))"
  by (auto simp: sign_def checkRequiredCredentials_def truthy_def js_string_def version_def Let_def
        split: option.splits)

text \<open>
  Without credentials the call is refused. With the key \<^verbatim>\<open>key\<close> and the secret
  \<^verbatim>\<open>secret\<close> the header is \<^verbatim>\<open>Basic a2V5OnNlY3JldA==\<close>; a GET of
  \<^verbatim>\<open>order/{clientOrderId}\<close> sends the parameter \<^verbatim>\<open>wait\<close> in the query string, a POST of
  \<^verbatim>\<open>order\<close> sends its parameters as the JSON body.
\<close>

theorem sign_private_witness:
  "\<forall>enc.
     (\<exists>msg. sign enc empty_exchange ''order'' ''private'' ''GET'' [] None None
              = Inl (AuthenticationError msg)) \<and>
     sign enc exchange_with_credentials ''order/{clientOrderId}'' ''private'' ''GET''
         [(''clientOrderId'', JStr ''abc''), (''wait'', JNum (Fin 5))] None None =
       Inr \<lparr> rq_url = ''https://api.hitbtc.com/api/2/'' @
                implodeParams enc ''order/{clientOrderId}''
                  [(''clientOrderId'', JStr ''abc''), (''wait'', JNum (Fin 5))] @
                ''?'' @ urlencode enc [(''wait'', JNum (Fin 5))],
              rq_method = ''GET'', rq_body = None,
              rq_headers = Some [(''Authorization'', ''Basic a2V5OnNlY3JldA==''),
                                 (''Content-Type'', ''application/json'')] \<rparr> \<and>
     sign enc exchange_with_credentials ''order'' ''private'' ''POST''
         [(''symbol'', JStr ''ETHBTC''), (''quantity'', JStr ''1'')] None None =
       Inr \<lparr> rq_url = ''https://api.hitbtc.com/api/2/'' @
                implodeParams enc ''order'' [(''symbol'', JStr ''ETHBTC''), (''quantity'', JStr ''1'')],
              rq_method = ''POST'',
              rq_body = Some (Json [(''symbol'', JStr ''ETHBTC''), (''quantity'', JStr ''1'')]),
              rq_headers = Some [(''Authorization'', ''Basic a2V5OnNlY3JldA==''),
                                 (''Content-Type'', ''application/json'')] \<rparr>"
proof (intro allI conjI)
  fix enc
  let ?get = "[(''clientOrderId'', JStr ''abc''), (''wait'', JNum (Fin 5))]"
  let ?post = "[(''symbol'', JStr ''ETHBTC''), (''quantity'', JStr ''1'')]"
  have q1: "omit ?get (extractParams ''order/{clientOrderId}'') = [(''wait'', JNum (Fin 5))]"
    by (simp add: omit_def is_word_char_def)
  have q2: "omit ?post (extractParams ''order'') = ?post"
    by (simp add: omit_def is_word_char_def)
  show "\<exists>msg. sign enc empty_exchange ''order'' ''private'' ''GET'' [] None None
          = Inl (AuthenticationError msg)"
    using sign_private [of "''private''" empty_exchange enc "''order''" "''GET''" "[]" None None
            "''key''" "''secret''"]
    by (simp add: truthy_def empty_exchange_def)
  show "sign enc exchange_with_credentials ''order/{clientOrderId}'' ''private'' ''GET'' ?get None None =
       Inr \<lparr> rq_url = ''https://api.hitbtc.com/api/2/'' @
                implodeParams enc ''order/{clientOrderId}'' ?get @
                ''?'' @ urlencode enc [(''wait'', JNum (Fin 5))],
              rq_method = ''GET'', rq_body = None,
              rq_headers = Some [(''Authorization'', ''Basic a2V5OnNlY3JldA==''),
                                 (''Content-Type'', ''application/json'')] \<rparr>"
    using sign_private [of "''private''" exchange_with_credentials enc
            "''order/{clientOrderId}''" "''GET''" ?get None None "''key''" "''secret''"]
          base64_key_secret q1
    by (auto simp: exchange_with_credentials_def urls_api_def js_string_def)
  show "sign enc exchange_with_credentials ''order'' ''private'' ''POST'' ?post None None =
       Inr \<lparr> rq_url = ''https://api.hitbtc.com/api/2/'' @ implodeParams enc ''order'' ?post,
              rq_method = ''POST'', rq_body = Some (Json ?post),
              rq_headers = Some [(''Authorization'', ''Basic a2V5OnNlY3JldA==''),
                                 (''Content-Type'', ''application/json'')] \<rparr>"
    using sign_private [of "''private''" exchange_with_credentials enc
            "''order''" "''POST''" ?post None None "''key''" "''secret''"]
          base64_key_secret q2
    by (auto simp: exchange_with_credentials_def urls_api_def js_string_def)
qed

section \<open>The tag of a withdrawal\<close>

text \<open>
  C9, as the code has it. For every withdrawal request that \<open>withdraw\<close> builds with
  the credentials present and with extra \<^verbatim>\<open>params\<close> that have no entry
  \<^verbatim>\<open>paymentId\<close> of their own: the signed request has a JSON body; if the tag is
  non-empty the body has the tag under the key \<^verbatim>\<open>paymentId\<close>, and if the tag is empty
  or absent the body has no key \<^verbatim>\<open>paymentId\<close>.
\<close>

theorem withdraw_paymentId:
  "truthy (apiKey this) \<and> truthy (secret this) \<and> ''paymentId'' \<notin> fst ` set params \<longrightarrow>
     (\<exists>r q. withdraw enc this currency_id amount address tag params = Inr r \<and>
        rq_body r = Some (Json q) \<and>
        (\<forall>t. tag = Some t \<and> t \<noteq> [] \<longrightarrow> map_of q ''paymentId'' = Some (JStr t)) \<and>
        (tag = None \<or> tag = Some [] \<longrightarrow> ''paymentId'' \<notin> fst ` set q))"
proof (intro impI)
  assume h: "truthy (apiKey this) \<and> truthy (secret this) \<and> ''paymentId'' \<notin> fst ` set params"
  define request0 where "request0 =
           [(''currency'', JStr currency_id), (''amount'', JNum amount), (''address'', JStr address)]"
  define request where "request =
           (if truthy tag then AList.update ''paymentId'' (JStr (js_string tag)) request0
            else request0)"
  define q where "q = extend request params"
  have ne: "q \<noteq> []"
    unfolding q_def by (rule extend_not_empty) (simp add: request_def request0_def)
  have w: "withdraw enc this currency_id amount address tag params =
      sign enc this ''account/crypto/withdraw'' ''private'' ''POST'' q None None"
    by (simp add: withdraw_def q_def request_def request0_def Let_def)
  have s: "\<exists>r. sign enc this ''account/crypto/withdraw'' ''private'' ''POST'' q None None = Inr r
      \<and> rq_body r = Some (Json q)"
    using h ne
    by (simp add: sign_def checkRequiredCredentials_def omit_def withdraw_path_params Let_def)
  have t1: "\<forall>t. tag = Some t \<and> t \<noteq> [] \<longrightarrow> map_of q ''paymentId'' = Some (JStr t)"
    using h by (auto simp: q_def map_of_extend request_def request0_def truthy_def js_string_def)
  have t2: "tag = None \<or> tag = Some [] \<longrightarrow> ''paymentId'' \<notin> fst ` set q"
    using h by (auto simp: q_def keys_extend request_def request0_def truthy_def)
  from w s t1 t2 show "\<exists>r q. withdraw enc this currency_id amount address tag params = Inr r \<and>
        rq_body r = Some (Json q) \<and>
        (\<forall>t. tag = Some t \<and> t \<noteq> [] \<longrightarrow> map_of q ''paymentId'' = Some (JStr t)) \<and>
        (tag = None \<or> tag = Some [] \<longrightarrow> ''paymentId'' \<notin> fst ` set q)"
    by auto
qed

text \<open>
  A withdrawal with the tag \<^verbatim>\<open>12345\<close> carries it under \<^verbatim>\<open>paymentId\<close>; one with no tag
  and one with the empty tag carry no \<^verbatim>\<open>paymentId\<close>.
\<close>

theorem withdraw_paymentId_witness:
  "\<forall>enc.
     (\<exists>r q. withdraw enc exchange_with_credentials ''XRP'' (Fin 1) ''address'' (Some ''12345'') [] = Inr r \<and>
        rq_body r = Some (Json q) \<and> map_of q ''paymentId'' = Some (JStr ''12345'')) \<and>
     (\<exists>r q. withdraw enc exchange_with_credentials ''BTC'' (Fin 1) ''address'' None [] = Inr r \<and>
        rq_body r = Some (Json q) \<and> ''paymentId'' \<notin> fst ` set q) \<and>
     (\<exists>r q. withdraw enc exchange_with_credentials ''BTC'' (Fin 1) ''address'' (Some []) [] = Inr r \<and>
        rq_body r = Some (Json q) \<and> ''paymentId'' \<notin> fst ` set q)"
proof (intro allI conjI)
  fix enc
  have c: "truthy (apiKey exchange_with_credentials) \<and> truthy (secret exchange_with_credentials)
      \<and> ''paymentId'' \<notin> fst ` set ([] :: params)"
    by (simp add: exchange_with_credentials_def truthy_def)
  show "\<exists>r q. withdraw enc exchange_with_credentials ''XRP'' (Fin 1) ''address'' (Some ''12345'') [] = Inr r \<and>
        rq_body r = Some (Json q) \<and> map_of q ''paymentId'' = Some (JStr ''12345'')"
    using withdraw_paymentId [where this = exchange_with_credentials and params = "[]" and enc = enc
            and currency_id = "''XRP''" and amount = "Fin 1" and address = "''address''"
            and tag = "Some ''12345''"] c
    by auto
  show "\<exists>r q. withdraw enc exchange_with_credentials ''BTC'' (Fin 1) ''address'' None [] = Inr r \<and>
        rq_body r = Some (Json q) \<and> ''paymentId'' \<notin> fst ` set q"
    using withdraw_paymentId [where this = exchange_with_credentials and params = "[]" and enc = enc
            and currency_id = "''BTC''" and amount = "Fin 1" and address = "''address''"
            and tag = None] c
    by auto
  show "\<exists>r q. withdraw enc exchange_with_credentials ''BTC'' (Fin 1) ''address'' (Some []) [] = Inr r \<and>
        rq_body r = Some (Json q) \<and> ''paymentId'' \<notin> fst ` set q"
    using withdraw_paymentId [where this = exchange_with_credentials and params = "[]" and enc = enc
            and currency_id = "''BTC''" and amount = "Fin 1" and address = "''address''"
            and tag = "Some []"] c
    by auto
qed

text \<open>
  C9 as the spec states it fails when the caller's \<^verbatim>\<open>params\<close> carry a \<^verbatim>\<open>paymentId\<close>:
  with no tag, the body still has the key, with the caller's value.
\<close>

theorem withdraw_paymentId_counterexample:
  "map_sum id rq_body
     (withdraw plain_encoders exchange_with_credentials ''BTC'' (Fin 1) ''address'' None
        [(''paymentId'', JStr ''abc'')])
   = Inr (Some (Json [(''currency'', JStr ''BTC''), (''amount'', JNum (Fin 1)),
                      (''address'', JStr ''address''), (''paymentId'', JStr ''abc'')]))"
  by (simp add: withdraw_def sign_def checkRequiredCredentials_def exchange_with_credentials_def
        truthy_def extend_def omit_def withdraw_path_params Let_def)

section \<open>The symbol of an order without one\<close>

text \<open>
  C10. For every raw order that has no symbol field, \<open>parseOrder\<close> called with a market
  sets the order's symbol to the market's exchange id \<^verbatim>\<open>market['id']\<close> (ETHBTC), not to
  the market's unified symbol (ETH/BTC), unlike \<open>parseTrade\<close>, which for a raw trade
  without a symbol field and the same market uses the market's unified symbol.
\<close>

theorem parseOrder_symbol_is_market_id:
  "ro_symbol order = None \<longrightarrow>
     (\<exists>r. parseOrder this order (Some m) = Inr r \<and> o_symbol r = m_id m \<and>
          (m_id m \<noteq> Some (m_symbol m) \<longrightarrow> o_symbol r \<noteq> Some (m_symbol m))) \<and>
     (rt_symbol trade = None \<longrightarrow> t_symbol (parseTrade this trade (Some m)) = Some (m_symbol m))"
proof (intro impI conjI)
  assume h: "ro_symbol order = None"
  obtain r where r: "parseOrder this order (Some m) = Inr r"
    using parseOrder_returns [of order "Some m" this] by auto
  from parseOrder_symbol_without_field [OF r h] have "o_symbol r = m_id m"
    by simp
  with r show "\<exists>r. parseOrder this order (Some m) = Inr r \<and> o_symbol r = m_id m \<and>
          (m_id m \<noteq> Some (m_symbol m) \<longrightarrow> o_symbol r \<noteq> Some (m_symbol m))"
    by auto
next
  assume "rt_symbol trade = None"
  then show "t_symbol (parseTrade this trade (Some m)) = Some (m_symbol m)"
    by (simp add: parseTrade_def Let_def)
qed

theorem parseOrder_symbol_is_market_id_witness:
  "ro_symbol order_without_symbol = None \<and> rt_symbol trade_without_price = None \<and>
   (\<exists>r. parseOrder empty_exchange order_without_symbol (Some sample_market) = Inr r
        \<and> o_symbol r = Some ''ETHBTC'' \<and> o_symbol r \<noteq> Some ''ETH/BTC'') \<and>
   t_symbol (parseTrade empty_exchange trade_without_price (Some sample_market)) = Some ''ETH/BTC''"
  using parseOrder_symbol_is_market_id
          [where order = order_without_symbol and this = empty_exchange and m = sample_market
             and trade = trade_without_price]
  by (simp add: order_without_symbol_def trade_without_price_def sample_market_def)

end
